theory Spec2Isabelle
  imports Complex_Main
begin

section \<open>Numbers\<close>

text \<open>
  The extension computes on JavaScript numbers, which are binary64 floating-point
  numbers. They are modelled as reals, \<open>NaN\<close> and the infinities left out. The
  arithmetic is exact, with one exception: the addition in \<open>setARduinoShadeToNumber\<close>
  is rounded as binary64 rounds it, because there the rounding decides whether the stored
  shade stays below 200.

  JavaScript's \<open>n % d\<close> is the remainder of the division truncated toward zero, so it
  has the sign of \<open>n\<close>; on binary64 numbers it is exact.
\<close>

definition js_trunc :: "real \<Rightarrow> int" where
  "js_trunc q = (if 0 \<le> q then \<lfloor>q\<rfloor> else \<lceil>q\<rceil>)"

definition js_rem :: "real \<Rightarrow> real \<Rightarrow> real" where
  "js_rem n d = n - d * of_int (js_trunc (n / d))"

text \<open>
  Rounding to binary64, to the nearest number with ties to the even significand. A number
  \<open>x\<close> with \<open>2 ^ e \<le> \<bar>x\<bar> < 2 ^ (e + 1)\<close> lies among numbers spaced
  \<open>2 ^ (e - 52)\<close> apart (53 significant bits); below \<open>2 ^ - 1022\<close> the spacing
  stays \<open>2 ^ - 1074\<close>. \<open>binade\<close> looks for \<open>e\<close> from 1023 downward and stops
  at \<open>- 1022\<close>. Overflow to an infinity, from \<open>2 ^ 1024\<close> on, is not modelled.
\<close>

definition pow2 :: "int \<Rightarrow> real" where
  "pow2 k = (if 0 \<le> k then 2 ^ nat k else 1 / 2 ^ nat (- k))"

definition roundHalfEven :: "real \<Rightarrow> int" where
  "roundHalfEven q =
     (let f = \<lfloor>q\<rfloor>;
          d = q - of_int f
      in if d < 1 / 2 then f
         else if 1 / 2 < d then f + 1
         else if even f then f else f + 1)"

fun binade :: "nat \<Rightarrow> real \<Rightarrow> int" where
  "binade 0 x = - 1022"
| "binade (Suc n) x =
     (if pow2 (int (Suc n) - 1022) \<le> \<bar>x\<bar> then int (Suc n) - 1022 else binade n x)"

definition roundDouble :: "real \<Rightarrow> real" where
  "roundDouble x =
     (let u = pow2 (binade 2045 x - 52)
      in of_int (roundHalfEven (x / u)) * u)"

text \<open>The addition of two JavaScript numbers, rounded.\<close>

definition js_add :: "real \<Rightarrow> real \<Rightarrow> real" where
  "js_add a b = roundDouble (a + b)"

section \<open>Utilities the module requires\<close>

text \<open>
  Modelled from the spec: \<open>Cast.toNumber\<close> (util/cast) is not among the sources. The
  spec treats argument casting as an external utility; the block arguments modelled here
  are numbers already, on which the cast is the identity.
\<close>

definition toNumber :: "real \<Rightarrow> real" where
  "toNumber n = n"

text \<open>
  Modelled from the spec: \<open>MathUtil.clamp\<close> (util/math-util) is not among the sources.
  The spec calls it a saturating clamp: values below the minimum are raised to it, values
  above the maximum are lowered to it.
\<close>

definition clamp :: "real \<Rightarrow> real \<Rightarrow> real \<Rightarrow> real" where
  "clamp n lo hi = min (max n lo) hi"

text \<open>
  Modelled from the spec: \<open>MathUtil.wrapClamp\<close> (util/math-util) is not among the
  sources. The spec describes it as reduction modulo the width of the range into the
  half-open range, for the range from 0 to 100 the value \<open>((x % 100) + 100) % 100\<close>.
\<close>

definition wrapClamp :: "real \<Rightarrow> real \<Rightarrow> real \<Rightarrow> real" where
  "wrapClamp n lo hi = lo + js_rem (js_rem (n - lo) (hi - lo) + (hi - lo)) (hi - lo)"

text \<open>
  Colour objects of util/color: \<open>{r, g, b}\<close> with an optional property \<open>a\<close>, channels
  in the range 0 to 255, and \<open>{h, s, v}\<close> with the hue in degrees.
\<close>

record RGB =
  rgb_r :: real
  rgb_g :: real
  rgb_b :: real
  rgb_a :: "real option"

record HSV =
  hsv_h :: real
  hsv_s :: real
  hsv_v :: real

text \<open>
  \<open>Color.hsvToRgb\<close> and \<open>Color.rgbToHsv\<close> are not among the sources, and the spec
  only assumes them as conversions that exist. The model takes them as a parameter: a
  value of this record stands for the required module \<open>Color\<close>.
\<close>

record Color =
  hsvToRgb :: "HSV \<Rightarrow> RGB"
  rgbToHsv :: "RGB \<Rightarrow> HSV"

text \<open>
  Modelled from the spec: \<open>Color.RGB_BLACK\<close>, \<open>Color.RGB_WHITE\<close> and
  \<open>Color.mixRgb\<close> are not among the sources. The spec speaks of black, of white and of
  mixing linearly from the first colour toward the second with a ratio.
\<close>

definition RGB_BLACK :: RGB where
  "RGB_BLACK = \<lparr>rgb_r = 0, rgb_g = 0, rgb_b = 0, rgb_a = None\<rparr>"

definition RGB_WHITE :: RGB where
  "RGB_WHITE = \<lparr>rgb_r = 255, rgb_g = 255, rgb_b = 255, rgb_a = None\<rparr>"

definition mixRgb :: "RGB \<Rightarrow> RGB \<Rightarrow> real \<Rightarrow> RGB" where
  "mixRgb rgb0 rgb1 fraction1 =
     \<lparr>rgb_r = (1 - fraction1) * rgb_r rgb0 + fraction1 * rgb_r rgb1,
      rgb_g = (1 - fraction1) * rgb_g rgb0 + fraction1 * rgb_g rgb1,
      rgb_b = (1 - fraction1) * rgb_b rgb0 + fraction1 * rgb_b rgb1,
      rgb_a = None\<rparr>"

section \<open>The state kept for each target\<close>

text \<open>
  \<open>color4f\<close> is the four-element array of the default state; the module copies it
  whole and writes its indices 0 to 3 only, so it is a quadruple here.
\<close>

record ARduinoAttributes =
  color4f :: "real \<times> real \<times> real \<times> real"
  diameter :: real

record ARduinoState =
  arduinoDown :: bool
  color :: real
  saturation :: real
  brightness :: real
  transparency :: real
  shade :: real
  arduinoAttributes :: ARduinoAttributes

definition DEFAULT_ARDUINO_STATE :: ARduinoState where
  "DEFAULT_ARDUINO_STATE =
     \<lparr>arduinoDown = False,
      color = 6666 / 100,
      saturation = 100,
      brightness = 100,
      transparency = 0,
      shade = 50,
      arduinoAttributes = \<lparr>color4f = (0, 0, 1, 1), diameter = 1\<rparr>\<rparr>"

definition ARDUINO_SIZE_RANGE_min :: real where
  "ARDUINO_SIZE_RANGE_min = 1"

definition ARDUINO_SIZE_RANGE_max :: real where
  "ARDUINO_SIZE_RANGE_max = 1200"

definition STATE_KEY :: string where
  "STATE_KEY = ''Scratch.arduino''"

text \<open>The enumeration \<open>ColorParam\<close>: its members are strings.\<close>

definition COLOR :: string where
  "COLOR = ''color''"

definition SATURATION :: string where
  "SATURATION = ''saturation''"

definition BRIGHTNESS :: string where
  "BRIGHTNESS = ''brightness''"

definition TRANSPARENCY :: string where
  "TRANSPARENCY = ''transparency''"

section \<open>Functions on a state\<close>

text \<open>
  The private methods keep their names without the leading underscore, which a name
  cannot start with here; \<open>_shade\<close> is the field \<open>shade\<close>.
\<close>

definition clampARduinoSize :: "real \<Rightarrow> real" where
  "clampARduinoSize requestedSize =
     clamp requestedSize ARDUINO_SIZE_RANGE_min ARDUINO_SIZE_RANGE_max"

definition wrapColor :: "real \<Rightarrow> real" where
  "wrapColor v = wrapClamp v 0 100"

definition clampColorParam :: "real \<Rightarrow> real" where
  "clampColorParam v = clamp v 0 100"

definition alphaToTransparency :: "real \<Rightarrow> real" where
  "alphaToTransparency alpha = (1 - alpha) * 100"

definition transparencyToAlpha :: "real \<Rightarrow> real" where
  "transparencyToAlpha t = 1 - t / 100"

text \<open>
  \<open>_updateARduinoColor\<close> writes the four entries of \<open>color4f\<close> one after the other
  and nothing else.
\<close>

definition updateARduinoColor :: "Color \<Rightarrow> ARduinoState \<Rightarrow> ARduinoState" where
  "updateARduinoColor C st =
     (let rgb = hsvToRgb C \<lparr>hsv_h = color st * 360 / 100,
                             hsv_s = saturation st / 100,
                             hsv_v = brightness st / 100\<rparr>
      in st\<lparr>arduinoAttributes := (arduinoAttributes st)
              \<lparr>color4f := (rgb_r rgb / 255, rgb_g rgb / 255, rgb_b rgb / 255,
                           transparencyToAlpha (transparency st))\<rparr>\<rparr>)"

text \<open>
  \<open>_setOrChangeColorParam\<close> returns the updated state together with the messages it
  gave to \<open>log.warn\<close>.
\<close>

definition setOrChangeColorParam ::
  "Color \<Rightarrow> string \<Rightarrow> real \<Rightarrow> ARduinoState \<Rightarrow> bool \<Rightarrow> ARduinoState \<times> string list" where
  "setOrChangeColorParam C param v st change =
     (if param = COLOR then
        (updateARduinoColor C
           (st\<lparr>color := wrapColor (v + (if change then color st else 0))\<rparr>), [])
      else if param = SATURATION then
        (updateARduinoColor C
           (st\<lparr>saturation := clampColorParam (v + (if change then saturation st else 0))\<rparr>), [])
      else if param = BRIGHTNESS then
        (updateARduinoColor C
           (st\<lparr>brightness := clampColorParam (v + (if change then brightness st else 0))\<rparr>), [])
      else if param = TRANSPARENCY then
        (updateARduinoColor C
           (st\<lparr>transparency := clampColorParam (v + (if change then transparency st else 0))\<rparr>), [])
      else
        (updateARduinoColor C st,
         [''Tried to set or change unknown color parameter: '' @ param]))"

definition legacyUpdateARduinoColor :: "Color \<Rightarrow> ARduinoState \<Rightarrow> ARduinoState" where
  "legacyUpdateARduinoColor C st =
     (let rgb0 = hsvToRgb C \<lparr>hsv_h = color st * 360 / 100, hsv_s = 1, hsv_v = 1\<rparr>;
          sh = (if shade st > 100 then 200 - shade st else shade st);
          rgb = (if sh < 50 then mixRgb RGB_BLACK rgb0 ((10 + sh) / 60)
                 else mixRgb rgb0 RGB_WHITE ((sh - 50) / 60));
          hsv = rgbToHsv C rgb
      in updateARduinoColor C
           (st\<lparr>color := 100 * hsv_h hsv / 360,
               saturation := 100 * hsv_s hsv,
               brightness := 100 * hsv_v hsv\<rparr>))"

section \<open>Targets, the renderer and the block package\<close>

text \<open>
  A target is an event emitter that also stores custom state under string keys. Only the
  parts the module uses are kept: the custom state, the listeners, the position and the
  drawable. \<open>addListener\<close> appends, also a listener that is registered already;
  \<open>removeListener\<close> takes away the most recently added instance, if there is one.
\<close>

datatype event = EVENT_TARGET_MOVED

datatype handler = onTargetMoved

record Target =
  customState :: "string \<rightharpoonup> ARduinoState"
  listeners :: "(event \<times> handler) list"
  target_x :: real
  target_y :: real
  drawableID :: int

definition getCustomState :: "Target \<Rightarrow> string \<Rightarrow> ARduinoState option" where
  "getCustomState t k = customState t k"

definition setCustomState :: "Target \<Rightarrow> string \<Rightarrow> ARduinoState \<Rightarrow> Target" where
  "setCustomState t k st = t\<lparr>customState := (customState t)(k \<mapsto> st)\<rparr>"

definition addListener :: "Target \<Rightarrow> event \<Rightarrow> handler \<Rightarrow> Target" where
  "addListener t e f = t\<lparr>listeners := listeners t @ [(e, f)]\<rparr>"

definition removeListener :: "Target \<Rightarrow> event \<Rightarrow> handler \<Rightarrow> Target" where
  "removeListener t e f = t\<lparr>listeners := rev (remove1 (e, f) (rev (listeners t)))\<rparr>"

text \<open>
  The renderer is known by the identifiers it hands out. What the module asks of it, and
  of \<open>runtime.requestRedraw\<close>, is recorded in the order of the calls.
\<close>

record Renderer =
  newSkinId :: int
  newDrawableId :: int

datatype call =
    CreateARduinoSkin
  | CreateDrawable
  | UpdateDrawableProperties int int
  | ArduinoPoint int ARduinoAttributes real real
  | RequestRedraw

text \<open>
  The world of one block call: the fields of the block package (\<open>this\<close>), the
  renderer of its runtime if there is one, what was logged, and \<open>util.target\<close>.
\<close>

record World =
  renderer :: "Renderer option"
  arduinoDrawableId :: int
  arduinoSkinId :: int
  calls :: "call list"
  warnings :: "string list"
  target :: Target

text \<open>
  A block either returns or throws; the world is given in both cases, since what was
  written before a throw stays written.
\<close>

datatype result = Returns World | Throws World

fun world :: "result \<Rightarrow> World" where
  "world (Returns w) = w"
| "world (Throws w) = w"

definition getARduinoLayerID :: "World \<Rightarrow> int \<times> World" where
  "getARduinoLayerID w =
     (case renderer w of
        Some r \<Rightarrow>
          if arduinoSkinId w < 0 then
            (newSkinId r,
             w\<lparr>arduinoSkinId := newSkinId r,
               arduinoDrawableId := newDrawableId r,
               calls := calls w @ [CreateARduinoSkin, CreateDrawable,
                                   UpdateDrawableProperties (newDrawableId r) (newSkinId r)]\<rparr>)
          else (arduinoSkinId w, w)
      | None \<Rightarrow> (arduinoSkinId w, w))"

text \<open>
  \<open>_getARduinoState\<close> returns the state of the target and the target, in which a copy
  of the default state has been installed if it had none. The state is an object that the
  target holds: a block that changes it changes what the target holds, which
  \<open>putARduinoState\<close> writes out.
\<close>

definition getARduinoState :: "Target \<Rightarrow> ARduinoState \<times> Target" where
  "getARduinoState t =
     (case getCustomState t STATE_KEY of
        Some st \<Rightarrow> (st, t)
      | None \<Rightarrow> (DEFAULT_ARDUINO_STATE, setCustomState t STATE_KEY DEFAULT_ARDUINO_STATE))"

definition putARduinoState :: "Target \<Rightarrow> ARduinoState \<Rightarrow> Target" where
  "putARduinoState t st = setCustomState t STATE_KEY st"

section \<open>The blocks\<close>

text \<open>
  Each block method takes its arguments and the world and gives the world it leaves.
  The methods \<open>arduinoDown\<close> and \<open>arduinoUp\<close> are \<open>arduinoDownBlock\<close> and
  \<open>arduinoUpBlock\<close>, since the state has a field \<open>arduinoDown\<close>. Of the blocks
  only \<open>arduinoDown\<close> can throw: when the skin identifier is not negative although
  the runtime has no renderer, the call on the renderer fails.
\<close>

definition arduinoDownBlock :: "World \<Rightarrow> result" where
  "arduinoDownBlock w =
     (let (st, t) = getARduinoState (target w);
          (st1, t1) = (if \<not> arduinoDown st
                       then (st\<lparr>arduinoDown := True\<rparr>, addListener t EVENT_TARGET_MOVED onTargetMoved)
                       else (st, t));
          t2 = putARduinoState t1 st1;
          (sid, w1) = getARduinoLayerID (w\<lparr>target := t2\<rparr>)
      in if sid \<ge> 0 then
           (case renderer w1 of
              Some r \<Rightarrow> Returns (w1\<lparr>calls := calls w1 @
                           [ArduinoPoint sid (arduinoAttributes st1) (target_x t2) (target_y t2),
                            RequestRedraw]\<rparr>)
            | None \<Rightarrow> Throws w1)
         else Returns w1)"

definition arduinoUpBlock :: "World \<Rightarrow> World" where
  "arduinoUpBlock w =
     (let (st, t) = getARduinoState (target w)
      in if arduinoDown st
         then w\<lparr>target := putARduinoState
                             (removeListener t EVENT_TARGET_MOVED onTargetMoved)
                             (st\<lparr>arduinoDown := False\<rparr>)\<rparr>
         else w\<lparr>target := t\<rparr>)"

text \<open>
  The argument \<open>COLOR\<close> is taken after \<open>Cast.toRgbColorObject\<close>, which is not among
  the sources: a colour object, with or without the property \<open>a\<close>.
\<close>

definition setARduinoColorToColor :: "Color \<Rightarrow> RGB \<Rightarrow> World \<Rightarrow> World" where
  "setARduinoColorToColor C rgb w =
     (let (st, t) = getARduinoState (target w);
          hsv = rgbToHsv C rgb;
          st1 = st\<lparr>color := (hsv_h hsv / 360) * 100,
                   saturation := hsv_s hsv * 100,
                   brightness := hsv_v hsv * 100\<rparr>;
          st2 = (case rgb_a rgb of
                   Some al \<Rightarrow> st1\<lparr>transparency := 100 * (1 - al / 255)\<rparr>
                 | None \<Rightarrow> st1\<lparr>transparency := 0\<rparr>);
          st3 = st2\<lparr>shade := brightness st2 / 2\<rparr>
      in w\<lparr>target := putARduinoState t (updateARduinoColor C st3)\<rparr>)"

definition changeARduinoColorParamBy :: "Color \<Rightarrow> string \<Rightarrow> real \<Rightarrow> World \<Rightarrow> World" where
  "changeARduinoColorParamBy C COLOR_PARAM VALUE w =
     (let (st, t) = getARduinoState (target w);
          (st1, msgs) = setOrChangeColorParam C COLOR_PARAM (toNumber VALUE) st True
      in w\<lparr>target := putARduinoState t st1, warnings := warnings w @ msgs\<rparr>)"

definition setARduinoColorParamTo :: "Color \<Rightarrow> string \<Rightarrow> real \<Rightarrow> World \<Rightarrow> World" where
  "setARduinoColorParamTo C COLOR_PARAM VALUE w =
     (let (st, t) = getARduinoState (target w);
          (st1, msgs) = setOrChangeColorParam C COLOR_PARAM (toNumber VALUE) st False
      in w\<lparr>target := putARduinoState t st1, warnings := warnings w @ msgs\<rparr>)"

definition changeARduinoSizeBy :: "real \<Rightarrow> World \<Rightarrow> World" where
  "changeARduinoSizeBy SIZE w =
     (let (st, t) = getARduinoState (target w);
          attrs = arduinoAttributes st;
          attrs1 = attrs\<lparr>diameter := clampARduinoSize (diameter attrs + toNumber SIZE)\<rparr>
      in w\<lparr>target := putARduinoState t (st\<lparr>arduinoAttributes := attrs1\<rparr>)\<rparr>)"

definition setARduinoSizeTo :: "real \<Rightarrow> World \<Rightarrow> World" where
  "setARduinoSizeTo SIZE w =
     (let (st, t) = getARduinoState (target w);
          attrs = arduinoAttributes st;
          attrs1 = attrs\<lparr>diameter := clampARduinoSize (toNumber SIZE)\<rparr>
      in w\<lparr>target := putARduinoState t (st\<lparr>arduinoAttributes := attrs1\<rparr>)\<rparr>)"

definition setARduinoHueToNumber :: "Color \<Rightarrow> real \<Rightarrow> World \<Rightarrow> World" where
  "setARduinoHueToNumber C HUE w =
     (let (st, t) = getARduinoState (target w);
          hueValue = toNumber HUE;
          colorValue = hueValue / 2;
          (st1, msgs1) = setOrChangeColorParam C COLOR colorValue st False;
          (st2, msgs2) = setOrChangeColorParam C TRANSPARENCY 0 st1 False
      in w\<lparr>target := putARduinoState t (legacyUpdateARduinoColor C st2),
           warnings := warnings w @ msgs1 @ msgs2\<rparr>)"

definition changeARduinoHueBy :: "Color \<Rightarrow> real \<Rightarrow> World \<Rightarrow> World" where
  "changeARduinoHueBy C HUE w =
     (let (st, t) = getARduinoState (target w);
          hueChange = toNumber HUE;
          colorChange = hueChange / 2;
          (st1, msgs1) = setOrChangeColorParam C COLOR colorChange st True
      in w\<lparr>target := putARduinoState t (legacyUpdateARduinoColor C st1),
           warnings := warnings w @ msgs1\<rparr>)"

definition setARduinoShadeToNumber :: "Color \<Rightarrow> real \<Rightarrow> World \<Rightarrow> World" where
  "setARduinoShadeToNumber C SHADE w =
     (let (st, t) = getARduinoState (target w);
          newShade0 = toNumber SHADE;
          newShade1 = js_rem newShade0 200;
          newShade = (if newShade1 < 0 then js_add newShade1 200 else newShade1)
      in w\<lparr>target := putARduinoState t (legacyUpdateARduinoColor C (st\<lparr>shade := newShade\<rparr>))\<rparr>)"

definition changeARduinoShadeBy :: "Color \<Rightarrow> real \<Rightarrow> World \<Rightarrow> World" where
  "changeARduinoShadeBy C SHADE w =
     (let (st, t) = getARduinoState (target w);
          shadeChange = toNumber SHADE
      in setARduinoShadeToNumber C (shade st + shadeChange) (w\<lparr>target := t\<rparr>))"

text \<open>
  The blocks the runtime can run on a target, by opcode and with their arguments, and the
  call of the method that the opcode names. \<open>clear\<close> and \<open>stamp\<close> touch no state of
  a target and are left out.
\<close>

datatype block =
    ArduinoDown
  | ArduinoUp
  | SetARduinoColorToColor RGB
  | ChangeARduinoColorParamBy string real
  | SetARduinoColorParamTo string real
  | ChangeARduinoSizeBy real
  | SetARduinoSizeTo real
  | SetARduinoShadeToNumber real
  | ChangeARduinoShadeBy real
  | SetARduinoHueToNumber real
  | ChangeARduinoHueBy real

fun runBlock :: "Color \<Rightarrow> block \<Rightarrow> World \<Rightarrow> result" where
  "runBlock C ArduinoDown w = arduinoDownBlock w"
| "runBlock C ArduinoUp w = Returns (arduinoUpBlock w)"
| "runBlock C (SetARduinoColorToColor rgb) w = Returns (setARduinoColorToColor C rgb w)"
| "runBlock C (ChangeARduinoColorParamBy p v) w = Returns (changeARduinoColorParamBy C p v w)"
| "runBlock C (SetARduinoColorParamTo p v) w = Returns (setARduinoColorParamTo C p v w)"
| "runBlock C (ChangeARduinoSizeBy v) w = Returns (changeARduinoSizeBy v w)"
| "runBlock C (SetARduinoSizeTo v) w = Returns (setARduinoSizeTo v w)"
| "runBlock C (SetARduinoShadeToNumber v) w = Returns (setARduinoShadeToNumber C v w)"
| "runBlock C (ChangeARduinoShadeBy v) w = Returns (changeARduinoShadeBy C v w)"
| "runBlock C (SetARduinoHueToNumber v) w = Returns (setARduinoHueToNumber C v w)"
| "runBlock C (ChangeARduinoHueBy v) w = Returns (changeARduinoHueBy C v w)"

section \<open>What the theorems speak about\<close>

text \<open>
  The state a block finds when it asks for the state of the target of a world: the one
  the target holds, or the default state.
\<close>

definition currentState :: "World \<Rightarrow> ARduinoState" where
  "currentState w = fst (getARduinoState (target w))"

text \<open>
  Following the spec's words (section 4.2, the recomputation of \<open>rgba\<close>): convert
  \<open>(color * 3.6, saturation / 100, brightness / 100)\<close> from HSV to RGB, divide each
  channel by 255, and take \<open>1 - transparency / 100\<close> for the alpha entry.
\<close>

definition rgbaOf :: "Color \<Rightarrow> ARduinoState \<Rightarrow> real \<times> real \<times> real \<times> real" where
  "rgbaOf C st =
     (let rgb = hsvToRgb C \<lparr>hsv_h = color st * 3.6,
                             hsv_s = saturation st / 100,
                             hsv_v = brightness st / 100\<rparr>
      in (rgb_r rgb / 255, rgb_g rgb / 255, rgb_b rgb / 255, 1 - transparency st / 100))"

text \<open>
  Following the spec's words (section 4.3, steps 1 to 3 of the legacy recomputation):
  the fully saturated, fully bright colour of the hue alone; the shade folded onto the
  scale from 0 to 100; and the mix, from black toward the colour with ratio
  \<open>(10 + e) / 60\<close> below 50, from the colour toward white with ratio
  \<open>(e - 50) / 60\<close> otherwise, written out channel by channel.
\<close>

definition legacyStep1 :: "Color \<Rightarrow> ARduinoState \<Rightarrow> RGB" where
  "legacyStep1 C st = hsvToRgb C \<lparr>hsv_h = color st * 3.6, hsv_s = 1, hsv_v = 1\<rparr>"

definition effectiveShade :: "ARduinoState \<Rightarrow> real" where
  "effectiveShade st = (if shade st > 100 then 200 - shade st else shade st)"

definition legacyMix :: "RGB \<Rightarrow> real \<Rightarrow> RGB" where
  "legacyMix rgb0 e =
     (if e < 50 then
        \<lparr>rgb_r = (10 + e) / 60 * rgb_r rgb0,
         rgb_g = (10 + e) / 60 * rgb_g rgb0,
         rgb_b = (10 + e) / 60 * rgb_b rgb0,
         rgb_a = None\<rparr>
      else
        \<lparr>rgb_r = rgb_r rgb0 + (e - 50) / 60 * (255 - rgb_r rgb0),
         rgb_g = rgb_g rgb0 + (e - 50) / 60 * (255 - rgb_g rgb0),
         rgb_b = rgb_b rgb0 + (e - 50) / 60 * (255 - rgb_b rgb0),
         rgb_a = None\<rparr>)"

text \<open>The blocks whose methods never write \<open>color4f\<close>.\<close>

fun keepsColor4f :: "block \<Rightarrow> bool" where
  "keepsColor4f ArduinoDown = True"
| "keepsColor4f ArduinoUp = True"
| "keepsColor4f (ChangeARduinoSizeBy v) = True"
| "keepsColor4f (SetARduinoSizeTo v) = True"
| "keepsColor4f b = False"

text \<open>
  The world after the constructor of the block package: both identifiers are \<open>-1\<close>,
  nothing has been drawn or logged.
\<close>

definition constructed :: "Renderer option \<Rightarrow> Target \<Rightarrow> World" where
  "constructed r t =
     \<lparr>renderer = r, arduinoDrawableId = - 1, arduinoSkinId = - 1,
      calls = [], warnings = [], target = t\<rparr>"

text \<open>A target at the origin that holds no state and has no listeners.\<close>

definition newTarget :: Target where
  "newTarget = \<lparr>customState = Map.empty, listeners = [],
                 target_x = 0, target_y = 0, drawableID = 0\<rparr>"

text \<open>
  Modelled from the spec: the conversions of util/color are not among the sources. For
  concrete instances of the theorems the parameter is filled with the standard
  conversions between HSV (hue in degrees) and RGB with whole-number channels from 0 to
  255.
\<close>

definition std_hsvToRgb :: "HSV \<Rightarrow> RGB" where
  "std_hsvToRgb hsv =
     (let h0 = js_rem (hsv_h hsv) 360;
          h = (if h0 < 0 then h0 + 360 else h0);
          s = max 0 (min (hsv_s hsv) 1);
          v = max 0 (min (hsv_v hsv) 1);
          i = \<lfloor>h / 60\<rfloor>;
          f = h / 60 - of_int i;
          p = v * (1 - s);
          q = v * (1 - s * f);
          t = v * (1 - s * (1 - f));
          (r, g, b) = (if i = 1 then (q, v, p)
                       else if i = 2 then (p, v, t)
                       else if i = 3 then (p, q, v)
                       else if i = 4 then (t, p, v)
                       else if i = 5 then (v, p, q)
                       else (v, t, p))
      in \<lparr>rgb_r = of_int \<lfloor>r * 255\<rfloor>, rgb_g = of_int \<lfloor>g * 255\<rfloor>,
          rgb_b = of_int \<lfloor>b * 255\<rfloor>, rgb_a = None\<rparr>)"

definition std_rgbToHsv :: "RGB \<Rightarrow> HSV" where
  "std_rgbToHsv rgb =
     (let r = rgb_r rgb / 255;
          g = rgb_g rgb / 255;
          b = rgb_b rgb / 255;
          x = min (min r g) b;
          v = max (max r g) b
      in if x = v then \<lparr>hsv_h = 0, hsv_s = 0, hsv_v = v\<rparr>
         else
           (let f = (if r = x then g - b else if g = x then b - r else r - g);
                i = (if r = x then 3 else if g = x then 5 else 1)
            in \<lparr>hsv_h = js_rem ((i - f / (v - x)) * 60) 360,
                hsv_s = (v - x) / v,
                hsv_v = v\<rparr>))"

definition stdColor :: Color where
  "stdColor = \<lparr>hsvToRgb = std_hsvToRgb, rgbToHsv = std_rgbToHsv\<rparr>"

section \<open>The remainder and the wrap into a range\<close>

lemma js_rem_nonneg:
  assumes "0 < d" "0 \<le> n"
  shows "0 \<le> js_rem n d \<and> js_rem n d < d"
proof -
  have q: "0 \<le> n / d" using assms by simp
  have eq: "js_rem n d = n - d * of_int \<lfloor>n / d\<rfloor>"
    using q by (simp add: js_rem_def js_trunc_def)
  have "of_int \<lfloor>n / d\<rfloor> \<le> n / d" by (rule of_int_floor_le)
  then have "d * of_int \<lfloor>n / d\<rfloor> \<le> d * (n / d)"
    using assms(1) by (intro mult_left_mono) simp_all
  then have a: "d * of_int \<lfloor>n / d\<rfloor> \<le> n"
    using assms(1) by simp
  have "n / d < of_int \<lfloor>n / d\<rfloor> + 1" by linarith
  then have "d * (n / d) < d * (of_int \<lfloor>n / d\<rfloor> + 1)"
    using assms(1) by (intro mult_strict_left_mono) simp_all
  then have b: "n < d * (of_int \<lfloor>n / d\<rfloor> + 1)"
    using assms(1) by simp
  show ?thesis using a b by (simp add: eq algebra_simps)
qed

lemma js_rem_neg:
  assumes "0 < d" "n < 0"
  shows "- d < js_rem n d \<and> js_rem n d \<le> 0"
proof -
  have q: "\<not> 0 \<le> n / d" using assms by (simp add: divide_less_0_iff not_le)
  have eq: "js_rem n d = n - d * of_int \<lceil>n / d\<rceil>"
    using q by (simp add: js_rem_def js_trunc_def)
  have "n / d \<le> of_int \<lceil>n / d\<rceil>" by (rule le_of_int_ceiling)
  then have "d * (n / d) \<le> d * of_int \<lceil>n / d\<rceil>"
    using assms(1) by (intro mult_left_mono) simp_all
  then have a: "n \<le> d * of_int \<lceil>n / d\<rceil>"
    using assms(1) by simp
  have "of_int \<lceil>n / d\<rceil> - 1 < n / d" using ceiling_correct[of "n / d"] by simp
  then have "d * (of_int \<lceil>n / d\<rceil> - 1) < d * (n / d)"
    using assms(1) by (intro mult_strict_left_mono) simp_all
  then have b: "d * (of_int \<lceil>n / d\<rceil> - 1) < n"
    using assms(1) by simp
  show ?thesis using a b by (simp add: eq algebra_simps)
qed

lemma js_rem_small:
  assumes "0 < d" "0 \<le> n" "n < d"
  shows "js_rem n d = n"
proof -
  have "\<lfloor>n / d\<rfloor> = 0" using assms by (intro floor_unique) simp_all
  moreover have "0 \<le> n / d" using assms by simp
  ultimately show ?thesis by (simp add: js_rem_def js_trunc_def)
qed

lemma js_rem_second:
  assumes "0 < d" "d \<le> n" "n < 2 * d"
  shows "js_rem n d = n - d"
proof -
  have "\<lfloor>n / d\<rfloor> = 1" using assms by (intro floor_unique) (simp_all add: pos_le_divide_eq pos_divide_less_eq)
  moreover have "0 \<le> n / d" using assms by simp
  ultimately show ?thesis by (simp add: js_rem_def js_trunc_def)
qed

lemma js_rem_range:
  assumes "0 < d"
  shows "- d < js_rem n d \<and> js_rem n d < d"
proof (cases "0 \<le> n")
  case True
  then show ?thesis using js_rem_nonneg[OF assms, of n] assms by linarith
next
  case False
  then show ?thesis using js_rem_neg[OF assms, of n] assms by linarith
qed

lemma js_rem_wrap:
  assumes "0 < d"
  shows "js_rem (js_rem n d + d) d = (if js_rem n d < 0 then js_rem n d + d else js_rem n d)"
proof (cases "js_rem n d < 0")
  case True
  have "js_rem (js_rem n d + d) d = js_rem n d + d"
    using True js_rem_range[OF assms, of n] assms by (intro js_rem_small) linarith+
  then show ?thesis using True by simp
next
  case False
  have "js_rem (js_rem n d + d) d = js_rem n d + d - d"
    using False js_rem_range[OF assms, of n] assms by (intro js_rem_second) linarith+
  then show ?thesis using False by simp
qed

lemma js_rem_wrap_range:
  assumes "0 < d"
  shows "0 \<le> js_rem (js_rem n d + d) d \<and> js_rem (js_rem n d + d) d < d"
  using js_rem_range[OF assms, of n] by (simp add: js_rem_wrap[OF assms])

lemma js_rem_wrap_floor:
  assumes "0 < d"
  shows "js_rem (js_rem n d + d) d = n - d * of_int \<lfloor>n / d\<rfloor>"
proof (cases "0 \<le> n")
  case True
  then have q: "0 \<le> n / d" using assms by simp
  have eq: "js_rem n d = n - d * of_int \<lfloor>n / d\<rfloor>"
    using q by (simp add: js_rem_def js_trunc_def)
  have "\<not> js_rem n d < 0" using js_rem_nonneg[OF assms True] by simp
  then have "js_rem (js_rem n d + d) d = js_rem n d" by (simp add: js_rem_wrap[OF assms])
  then show ?thesis by (simp only: eq)
next
  case False
  then have n: "n < 0" by simp
  then have q: "\<not> 0 \<le> n / d" using assms by (simp add: divide_less_0_iff not_le)
  have eq: "js_rem n d = n - d * of_int \<lceil>n / d\<rceil>"
    using q by (simp add: js_rem_def js_trunc_def)
  show ?thesis
  proof (cases "js_rem n d < 0")
    case True
    then have "n < d * of_int \<lceil>n / d\<rceil>" by (simp add: eq)
    then have "n / d < of_int \<lceil>n / d\<rceil>"
      using assms by (simp add: pos_divide_less_eq mult.commute)
    moreover have "of_int \<lceil>n / d\<rceil> - 1 < n / d" by linarith
    ultimately have "\<lfloor>n / d\<rfloor> = \<lceil>n / d\<rceil> - 1"
      by (intro floor_unique) simp_all
    then have fl: "(of_int \<lfloor>n / d\<rfloor> :: real) = of_int \<lceil>n / d\<rceil> - 1"
      by simp
    have "js_rem (js_rem n d + d) d = js_rem n d + d"
      using True by (simp add: js_rem_wrap[OF assms])
    also have "\<dots> = n - d * of_int \<lceil>n / d\<rceil> + d" by (simp only: eq)
    also have "\<dots> = n - d * of_int \<lfloor>n / d\<rfloor>" by (simp add: fl algebra_simps)
    finally show ?thesis .
  next
    case False
    then have "d * of_int \<lceil>n / d\<rceil> \<le> n" by (simp add: eq)
    then have "of_int \<lceil>n / d\<rceil> \<le> n / d"
      using assms by (simp add: pos_le_divide_eq mult.commute)
    moreover have "n / d < of_int \<lceil>n / d\<rceil> + 1" by linarith
    ultimately have "\<lfloor>n / d\<rfloor> = \<lceil>n / d\<rceil>"
      by (intro floor_unique) simp_all
    then have fl: "(of_int \<lfloor>n / d\<rfloor> :: real) = of_int \<lceil>n / d\<rceil>"
      by simp
    have "js_rem (js_rem n d + d) d = js_rem n d"
      using False by (simp add: js_rem_wrap[OF assms])
    also have "\<dots> = n - d * of_int \<lceil>n / d\<rceil>" by (simp only: eq)
    also have "\<dots> = n - d * of_int \<lfloor>n / d\<rfloor>" by (simp add: fl)
    finally show ?thesis .
  qed
qed


lemma js_rem_small_negative:
  assumes "0 < d" "- d < n" "n \<le> 0"
  shows "js_rem n d = n"
proof -
  have "\<lceil>n / d\<rceil> = 0"
    using assms by (intro ceiling_unique) (simp_all add: pos_less_divide_eq divide_le_0_iff)
  moreover have "\<lfloor>n / d\<rfloor> = 0" if "0 \<le> n / d"
  proof -
    from that assms have "n = 0" by (simp add: zero_le_divide_iff)
    then show ?thesis by simp
  qed
  ultimately show ?thesis by (simp add: js_rem_def js_trunc_def)
qed

section \<open>Rounding to binary64\<close>

lemma pow2_ge_256:
  assumes "8 \<le> k"
  shows "256 \<le> pow2 k"
proof -
  have "(2::real) ^ 8 \<le> 2 ^ nat k"
    using assms by (intro power_increasing) simp_all
  then show ?thesis using assms by (simp add: pow2_def)
qed

lemma binade_128_256:
  assumes "128 \<le> \<bar>x\<bar>" "\<bar>x\<bar> < 256"
  shows "1029 \<le> n \<Longrightarrow> binade n x = 7"
proof (induction n)
  case 0
  then show ?case by simp
next
  case (Suc n)
  have step: "binade (Suc n) x =
                (if pow2 (int (Suc n) - 1022) \<le> \<bar>x\<bar> then int (Suc n) - 1022 else binade n x)"
    by simp
  show ?case
  proof (cases "n = 1028")
    case True
    then have k: "int (Suc n) - 1022 = 7" by simp
    have "pow2 7 = 128" by (simp add: pow2_def)
    then show ?thesis using assms(1) by (simp only: step k if_True)
  next
    case False
    with Suc.prems have n: "1029 \<le> n" by simp
    then have "256 \<le> pow2 (int (Suc n) - 1022)" by (intro pow2_ge_256) simp
    then have "\<not> pow2 (int (Suc n) - 1022) \<le> \<bar>x\<bar>" using assms(2) by simp
    then show ?thesis using Suc.IH[OF n] by (simp only: step if_False)
  qed
qed

lemma roundHalfEven_below_even:
  assumes "even N" "of_int N - 1 / 2 \<le> q" "q < of_int N"
  shows "roundHalfEven q = N"
proof -
  have f: "\<lfloor>q\<rfloor> = N - 1"
    using assms(2,3) by (intro floor_unique) simp_all
  have odd: "\<not> even (N - 1)" using assms(1) by simp
  have d: "1 / 2 \<le> q - of_int (N - 1)" using assms(2) by simp
  show ?thesis
    using d odd by (simp add: roundHalfEven_def f Let_def)
qed

lemma roundDouble_up_to_200:
  assumes "- (1 / 2 ^ 46) \<le> r" "r < 0"
  shows "roundDouble (r + 200) = 200"
proof -
  have a: "128 \<le> \<bar>r + 200\<bar>" "\<bar>r + 200\<bar> < 256"
    using assms by (simp_all add: abs_if) 
  have b: "binade 2045 (r + 200) = 7"
    by (rule binade_128_256[OF a]) simp
  have u: "pow2 (- 45) = 1 / 2 ^ 45" by (simp add: pow2_def)
  have q: "(r + 200) / (1 / 2 ^ 45) = r * 2 ^ 45 + of_int (200 * 2 ^ 45)"
    by (simp add: algebra_simps)
  have lo: "of_int (200 * 2 ^ 45) - 1 / 2 \<le> r * 2 ^ 45 + of_int (200 * 2 ^ 45)"
  proof -
    have "- (1 / 2 ^ 46) * 2 ^ 45 \<le> r * 2 ^ 45"
      using assms(1) by (intro mult_right_mono) simp_all
    then show ?thesis by simp
  qed
  have hi: "r * 2 ^ 45 + of_int (200 * 2 ^ 45) < of_int (200 * 2 ^ 45)"
  proof -
    have "r * 2 ^ 45 < 0" using assms(2) by (simp add: mult_less_0_iff)
    then show ?thesis by simp
  qed
  have ev: "even (200 * 2 ^ 45 :: int)" by simp
  have n: "roundHalfEven ((r + 200) / (1 / 2 ^ 45)) = 200 * 2 ^ 45"
    unfolding q by (rule roundHalfEven_below_even[OF ev lo hi])
  have k: "(7::int) - 52 = - 45" by simp
  have "roundDouble (r + 200)
          = of_int (roundHalfEven ((r + 200) / pow2 (binade 2045 (r + 200) - 52)))
              * pow2 (binade 2045 (r + 200) - 52)"
    by (simp only: roundDouble_def Let_def)
  also have "\<dots> = of_int (roundHalfEven ((r + 200) / (1 / 2 ^ 45))) * (1 / 2 ^ 45)"
    by (simp only: b k u)
  also have "\<dots> = of_int (200 * 2 ^ 45) * (1 / 2 ^ 45)"
    by (simp only: n)
  also have "\<dots> = 200" by simp
  finally show ?thesis .
qed

section \<open>Reading and writing the state of a target\<close>

lemma stored_put:
  "getCustomState (putARduinoState t st) STATE_KEY = Some st"
  by (simp add: getCustomState_def putARduinoState_def setCustomState_def)

lemma stored_after_get:
  "getCustomState (snd (getARduinoState t)) STATE_KEY = Some (fst (getARduinoState t))"
  by (simp add: getARduinoState_def getCustomState_def setCustomState_def split: option.splits)

lemma getARduinoState_again:
  "getARduinoState (snd (getARduinoState t)) = getARduinoState t"
  by (simp add: getARduinoState_def getCustomState_def setCustomState_def split: option.splits)

lemma put_listeners:
  "listeners (putARduinoState t st) = listeners t"
  by (simp add: putARduinoState_def setCustomState_def)

lemma get_listeners:
  "listeners (snd (getARduinoState t)) = listeners t"
  by (simp add: getARduinoState_def setCustomState_def split: option.splits)

lemma rgbaOf_update:
  "rgbaOf C (updateARduinoColor C st) = rgbaOf C st"
  by (simp add: rgbaOf_def updateARduinoColor_def Let_def)

lemma color4f_update:
  "color4f (arduinoAttributes (updateARduinoColor C st)) = rgbaOf C st"
proof -
  have "color st * 360 / 100 = color st * 3.6" by simp
  then show ?thesis
    by (simp add: rgbaOf_def updateARduinoColor_def Let_def transparencyToAlpha_def mult.commute)
qed

lemma update_consistent:
  "color4f (arduinoAttributes (updateARduinoColor C st)) = rgbaOf C (updateARduinoColor C st)"
  by (simp only: color4f_update rgbaOf_update)

lemma update_fields:
  "arduinoDown (updateARduinoColor C st) = arduinoDown st"
  "color (updateARduinoColor C st) = color st"
  "saturation (updateARduinoColor C st) = saturation st"
  "brightness (updateARduinoColor C st) = brightness st"
  "transparency (updateARduinoColor C st) = transparency st"
  "shade (updateARduinoColor C st) = shade st"
  "diameter (arduinoAttributes (updateARduinoColor C st)) = diameter (arduinoAttributes st)"
  by (simp_all add: updateARduinoColor_def Let_def)

lemma update_idle:
  "color4f (arduinoAttributes st) = rgbaOf C st \<Longrightarrow> updateARduinoColor C st = st"
proof -
  assume a: "color4f (arduinoAttributes st) = rgbaOf C st"
  have "updateARduinoColor C st
          = st\<lparr>arduinoAttributes := (arduinoAttributes st)\<lparr>color4f := rgbaOf C st\<rparr>\<rparr>"
    using color4f_update[of C st] by (simp add: updateARduinoColor_def Let_def)
  also have "\<dots> = st" by (simp add: a[symmetric])
  finally show ?thesis .
qed

lemma setOrChange_consistent:
  "color4f (arduinoAttributes (fst (setOrChangeColorParam C p v st ch)))
     = rgbaOf C (fst (setOrChangeColorParam C p v st ch))"
  by (simp add: setOrChangeColorParam_def update_consistent)

lemma legacy_consistent:
  "color4f (arduinoAttributes (legacyUpdateARduinoColor C st))
     = rgbaOf C (legacyUpdateARduinoColor C st)"
  by (simp add: legacyUpdateARduinoColor_def Let_def update_consistent)

lemma stored_setParam:
  "getCustomState (target (setARduinoColorParamTo C p v w)) STATE_KEY
     = Some (fst (setOrChangeColorParam C p v (currentState w) False))"
  by (simp add: setARduinoColorParamTo_def currentState_def split_def Let_def toNumber_def stored_put)

lemma stored_changeParam:
  "getCustomState (target (changeARduinoColorParamBy C p v w)) STATE_KEY
     = Some (fst (setOrChangeColorParam C p v (currentState w) True))"
  by (simp add: changeARduinoColorParamBy_def currentState_def split_def Let_def toNumber_def stored_put)

lemma stored_setSize:
  "getCustomState (target (setARduinoSizeTo v w)) STATE_KEY
     = Some ((currentState w)\<lparr>arduinoAttributes :=
               (arduinoAttributes (currentState w))\<lparr>diameter := clampARduinoSize v\<rparr>\<rparr>)"
  by (simp add: setARduinoSizeTo_def currentState_def split_def Let_def toNumber_def stored_put)

lemma stored_changeSize:
  "getCustomState (target (changeARduinoSizeBy v w)) STATE_KEY
     = Some ((currentState w)\<lparr>arduinoAttributes :=
               (arduinoAttributes (currentState w))
                 \<lparr>diameter := clampARduinoSize (diameter (arduinoAttributes (currentState w)) + v)\<rparr>\<rparr>)"
  by (simp add: changeARduinoSizeBy_def currentState_def split_def Let_def toNumber_def stored_put)

lemma consistent_setColor:
  "\<exists>st. getCustomState (target (setARduinoColorToColor C rgb w)) STATE_KEY = Some st
        \<and> color4f (arduinoAttributes st) = rgbaOf C st"
  by (simp add: setARduinoColorToColor_def split_def Let_def stored_put update_consistent)

lemma consistent_setHue:
  "\<exists>st. getCustomState (target (setARduinoHueToNumber C v w)) STATE_KEY = Some st
        \<and> color4f (arduinoAttributes st) = rgbaOf C st"
  by (simp add: setARduinoHueToNumber_def split_def Let_def stored_put legacy_consistent)

lemma consistent_changeHue:
  "\<exists>st. getCustomState (target (changeARduinoHueBy C v w)) STATE_KEY = Some st
        \<and> color4f (arduinoAttributes st) = rgbaOf C st"
  by (simp add: changeARduinoHueBy_def split_def Let_def stored_put legacy_consistent)

lemma stored_setShade:
  "getCustomState (target (setARduinoShadeToNumber C v w)) STATE_KEY
     = Some (legacyUpdateARduinoColor C
               ((currentState w)\<lparr>shade := (if js_rem v 200 < 0 then js_add (js_rem v 200) 200
                                             else js_rem v 200)\<rparr>))"
  by (simp add: setARduinoShadeToNumber_def currentState_def split_def Let_def toNumber_def
        stored_put del: if_split)

lemma changeShade_routes:
  "changeARduinoShadeBy C d w = setARduinoShadeToNumber C (shade (currentState w) + d) w"
  by (simp add: changeARduinoShadeBy_def setARduinoShadeToNumber_def currentState_def split_def
        Let_def toNumber_def getARduinoState_again)

lemma target_getARduinoLayerID:
  "target (snd (getARduinoLayerID w)) = target w"
  by (simp add: getARduinoLayerID_def split: option.splits)

lemma stored_arduinoUp:
  "getCustomState (target (arduinoUpBlock w)) STATE_KEY
     = Some ((currentState w)\<lparr>arduinoDown := False\<rparr>)"
proof (cases "arduinoDown (currentState w)")
  case True
  then show ?thesis
    by (simp add: arduinoUpBlock_def currentState_def split_def Let_def stored_put)
next
  case False
  then have "(currentState w)\<lparr>arduinoDown := False\<rparr> = currentState w" by simp
  then show ?thesis using False
    by (simp add: arduinoUpBlock_def currentState_def split_def Let_def stored_after_get)
qed

lemma target_arduinoDown:
  "target (world (arduinoDownBlock w)) =
     putARduinoState
       (if arduinoDown (currentState w) then snd (getARduinoState (target w))
        else addListener (snd (getARduinoState (target w))) EVENT_TARGET_MOVED onTargetMoved)
       ((currentState w)\<lparr>arduinoDown := True\<rparr>)"
proof -
  have eq: "arduinoDown (fst (getARduinoState (target w))) \<Longrightarrow>
              (fst (getARduinoState (target w)))\<lparr>arduinoDown := True\<rparr>
                = fst (getARduinoState (target w))" by simp
  show ?thesis
    by (cases "arduinoDown (currentState w)")
       (auto simp: arduinoDownBlock_def currentState_def split_def Let_def
             getARduinoLayerID_def eq split: option.splits)
qed

lemma stored_arduinoDown:
  "getCustomState (target (world (arduinoDownBlock w))) STATE_KEY
     = Some ((currentState w)\<lparr>arduinoDown := True\<rparr>)"
  by (simp only: target_arduinoDown stored_put)

section \<open>Further facts about the state functions\<close>

lemma getARduinoState_stored:
  "getCustomState t STATE_KEY = Some st \<Longrightarrow> getARduinoState t = (st, t)"
  by (simp add: getARduinoState_def)

lemma arduinoUp_idem:
  "arduinoUpBlock (arduinoUpBlock w) = arduinoUpBlock w"
proof -
  have "getARduinoState (target (arduinoUpBlock w))
          = ((currentState w)\<lparr>arduinoDown := False\<rparr>, target (arduinoUpBlock w))"
    by (rule getARduinoState_stored[OF stored_arduinoUp])
  then show ?thesis
    by (simp add: arduinoUpBlock_def[of "arduinoUpBlock w"])
qed

lemma unknown_setOrChange:
  assumes "p \<notin> {COLOR, SATURATION, BRIGHTNESS, TRANSPARENCY}"
  shows "setOrChangeColorParam C p v st ch
           = (updateARduinoColor C st, [''Tried to set or change unknown color parameter: '' @ p])"
  using assms by (simp add: setOrChangeColorParam_def)

lemma color_after_setParam:
  "\<exists>st'. getCustomState (target (setARduinoColorParamTo C COLOR x w)) STATE_KEY = Some st'
         \<and> color st' = js_rem (js_rem x 100 + 100) 100"
  by (simp add: stored_setParam setOrChangeColorParam_def update_fields wrapColor_def
        wrapClamp_def)

lemma mix_from_black:
  "mixRgb RGB_BLACK rgb0 t =
     \<lparr>rgb_r = t * rgb_r rgb0, rgb_g = t * rgb_g rgb0,
      rgb_b = t * rgb_b rgb0, rgb_a = None\<rparr>"
  by (simp add: mixRgb_def RGB_BLACK_def)

lemma mix_toward_white:
  "mixRgb rgb0 RGB_WHITE t =
     \<lparr>rgb_r = rgb_r rgb0 + t * (255 - rgb_r rgb0),
      rgb_g = rgb_g rgb0 + t * (255 - rgb_g rgb0),
      rgb_b = rgb_b rgb0 + t * (255 - rgb_b rgb0), rgb_a = None\<rparr>"
  by (simp add: mixRgb_def RGB_WHITE_def algebra_simps)

lemma legacy_unfolded:
  "legacyUpdateARduinoColor C st =
     updateARduinoColor C
       (st\<lparr>color := 100 * hsv_h (rgbToHsv C (legacyMix (legacyStep1 C st) (effectiveShade st))) / 360,
           saturation := 100 * hsv_s (rgbToHsv C (legacyMix (legacyStep1 C st) (effectiveShade st))),
           brightness := 100 * hsv_v (rgbToHsv C (legacyMix (legacyStep1 C st) (effectiveShade st)))\<rparr>)"
proof -
  have h: "color st * 360 / 100 = color st * 3.6" by simp
  have m: "(if effectiveShade st < 50
            then mixRgb RGB_BLACK (legacyStep1 C st) ((10 + effectiveShade st) / 60)
            else mixRgb (legacyStep1 C st) RGB_WHITE ((effectiveShade st - 50) / 60))
           = legacyMix (legacyStep1 C st) (effectiveShade st)"
    by (simp only: mix_from_black mix_toward_white legacyMix_def)
  show ?thesis
    unfolding legacyUpdateARduinoColor_def Let_def h
    unfolding legacyStep1_def[symmetric] effectiveShade_def[symmetric] m ..
qed

lemma shade_rounds_to_200:
  assumes "- (1 / 2 ^ 46) \<le> x" "x < 0"
  shows "\<exists>st'. getCustomState (target (setARduinoShadeToNumber C x w)) STATE_KEY = Some st'
               \<and> shade st' = 200"
proof -
  have "- 200 < x" using assms(1) by (rule less_le_trans[rotated]) simp
  then have r: "js_rem x 200 = x"
    using assms(2) by (intro js_rem_small_negative) simp_all
  have a: "js_add x 200 = 200"
    unfolding js_add_def by (rule roundDouble_up_to_200[OF assms])
  have "shade (legacyUpdateARduinoColor C st) = shade st" for st
    by (simp add: legacyUpdateARduinoColor_def Let_def update_fields)
  then show ?thesis
    using assms(2) by (simp add: stored_setShade r a)
qed

section \<open>The claims\<close>

text \<open>
  Claim C1. For every target and every number \<open>x\<close>, setting the parameter
  \<open>color\<close> to \<open>x\<close> stores the colour \<open>((x % 100) + 100) % 100\<close>, which lies
  in the half-open range from 0 to 100 and is \<open>x\<close> less the greatest multiple of 100
  not above it; 105 is stored as 5 and \<open>-5\<close> as 95. The value
  is what \<open>wrapClamp\<close>, as the spec describes it, yields for the bounds 0 and 100
  that \<open>_wrapColor\<close> passes.
\<close>

theorem setParam_color_wraps:
  "(\<exists>st'. getCustomState (target (setARduinoColorParamTo C COLOR x w)) STATE_KEY = Some st'
          \<and> color st' = js_rem (js_rem x 100 + 100) 100
          \<and> color st' = x - 100 * of_int \<lfloor>x / 100\<rfloor>
          \<and> 0 \<le> color st' \<and> color st' < 100)
   \<and> (\<exists>st'. getCustomState (target (setARduinoColorParamTo C COLOR 105 w)) STATE_KEY = Some st'
          \<and> color st' = 5)
   \<and> (\<exists>st'. getCustomState (target (setARduinoColorParamTo C COLOR (- 5) w)) STATE_KEY = Some st'
          \<and> color st' = 95)"
proof (intro conjI)
  obtain st' where
    s: "getCustomState (target (setARduinoColorParamTo C COLOR x w)) STATE_KEY = Some st'"
    and c: "color st' = js_rem (js_rem x 100 + 100) 100"
    using color_after_setParam by blast
  have "0 \<le> color st' \<and> color st' < 100"
    using js_rem_wrap_range[of 100 x] by (simp add: c)
  moreover have "color st' = x - 100 * of_int \<lfloor>x / 100\<rfloor>"
    using js_rem_wrap_floor[of 100 x] by (simp add: c)
  ultimately show "\<exists>st'. getCustomState (target (setARduinoColorParamTo C COLOR x w)) STATE_KEY = Some st'
          \<and> color st' = js_rem (js_rem x 100 + 100) 100
          \<and> color st' = x - 100 * of_int \<lfloor>x / 100\<rfloor>
          \<and> 0 \<le> color st' \<and> color st' < 100" using s c by blast
next
  have "js_rem (js_rem 105 100 + 100) 100 = 5" by code_simp
  then show "\<exists>st'. getCustomState (target (setARduinoColorParamTo C COLOR 105 w)) STATE_KEY = Some st'
          \<and> color st' = 5"
    using color_after_setParam[of C 105 w] by simp
next
  have "js_rem (js_rem (- 5) 100 + 100) 100 = 95" by code_simp
  then show "\<exists>st'. getCustomState (target (setARduinoColorParamTo C COLOR (- 5) w)) STATE_KEY = Some st'
          \<and> color st' = 95"
    using color_after_setParam[of C "- 5" w] by simp
qed

text \<open>
  Claim C2. After each of the blocks that set or change a colour parameter, set the
  colour from an RGB(A) value, set or change the hue or the shade, set or change the size,
  or put the trail down or up, the target holds a state whose \<open>color4f\<close> is the
  HSV-to-RGB conversion of \<open>(color * 3.6, saturation / 100, brightness / 100)\<close> with
  each channel divided by 255, and \<open>1 - transparency / 100\<close> as alpha. The blocks that
  write a colour parameter establish this from any state. The size and trail blocks never
  write \<open>color4f\<close> or its inputs: they leave the equation as they find it, in
  the state the target holds or, for a target without one, in the default state.
\<close>

theorem rgba_consistent_after_block:
  assumes "keepsColor4f b \<longrightarrow>
             color4f (arduinoAttributes (currentState w)) = rgbaOf C (currentState w)"
  shows "\<exists>st'. getCustomState (target (world (runBlock C b w))) STATE_KEY = Some st'
               \<and> color4f (arduinoAttributes st') = rgbaOf C st'"
proof (cases b)
  case ArduinoDown
  then show ?thesis using assms by (simp add: stored_arduinoDown rgbaOf_def)
next
  case ArduinoUp
  then show ?thesis using assms by (simp add: stored_arduinoUp rgbaOf_def)
next
  case (SetARduinoColorToColor rgb)
  then show ?thesis by (simp add: consistent_setColor)
next
  case (ChangeARduinoColorParamBy p v)
  then show ?thesis by (simp add: stored_changeParam setOrChange_consistent)
next
  case (SetARduinoColorParamTo p v)
  then show ?thesis by (simp add: stored_setParam setOrChange_consistent)
next
  case (ChangeARduinoSizeBy v)
  then show ?thesis using assms by (simp add: stored_changeSize rgbaOf_def)
next
  case (SetARduinoSizeTo v)
  then show ?thesis using assms by (simp add: stored_setSize rgbaOf_def)
next
  case (SetARduinoShadeToNumber v)
  then show ?thesis by (simp add: stored_setShade legacy_consistent)
next
  case (ChangeARduinoShadeBy v)
  then show ?thesis by (simp add: changeShade_routes stored_setShade legacy_consistent)
next
  case (SetARduinoHueToNumber v)
  then show ?thesis by (simp add: consistent_setHue)
next
  case (ChangeARduinoHueBy v)
  then show ?thesis by (simp add: consistent_changeHue)
qed

theorem rgba_consistent_after_block_witness:
  "keepsColor4f (SetARduinoSizeTo 5)
   \<and> color4f (arduinoAttributes (currentState (constructed None newTarget)))
       = rgbaOf stdColor (currentState (constructed None newTarget))
   \<and> (\<exists>st'. getCustomState (target (world (runBlock stdColor (SetARduinoSizeTo 5)
                 (constructed None newTarget)))) STATE_KEY = Some st'
          \<and> color4f (arduinoAttributes st') = rgbaOf stdColor st')"
proof -
  have h: "color4f (arduinoAttributes (currentState (constructed None newTarget)))
             = rgbaOf stdColor (currentState (constructed None newTarget))"
    by code_simp
  have k: "keepsColor4f (SetARduinoSizeTo 5)" by simp
  show ?thesis
    using h k rgba_consistent_after_block[of "SetARduinoSizeTo 5" "constructed None newTarget" stdColor]
    by blast
qed

text \<open>
  Claim C3. The legacy recomputation takes the colour of the hue alone (saturation 1,
  value 1), folds the shade onto the scale from 0 to 100, mixes from black toward that
  colour with ratio \<open>(10 + e) / 60\<close> if the folded shade \<open>e\<close> is below 50 and from
  that colour toward white with ratio \<open>(e - 50) / 60\<close> otherwise, converts the mix
  back to HSV, overwrites colour, saturation and brightness with it and recomputes
  \<open>color4f\<close>; nothing else changes. At exactly 50 the mix is the one toward white
  with ratio 0, whose channels are those of the colour of the hue.
\<close>

theorem legacy_recompute_steps:
  "color (legacyUpdateARduinoColor C st)
     = 100 * hsv_h (rgbToHsv C (legacyMix (legacyStep1 C st) (effectiveShade st))) / 360
   \<and> saturation (legacyUpdateARduinoColor C st)
     = 100 * hsv_s (rgbToHsv C (legacyMix (legacyStep1 C st) (effectiveShade st)))
   \<and> brightness (legacyUpdateARduinoColor C st)
     = 100 * hsv_v (rgbToHsv C (legacyMix (legacyStep1 C st) (effectiveShade st)))
   \<and> color4f (arduinoAttributes (legacyUpdateARduinoColor C st))
     = rgbaOf C (legacyUpdateARduinoColor C st)
   \<and> transparency (legacyUpdateARduinoColor C st) = transparency st
   \<and> shade (legacyUpdateARduinoColor C st) = shade st
   \<and> arduinoDown (legacyUpdateARduinoColor C st) = arduinoDown st
   \<and> diameter (arduinoAttributes (legacyUpdateARduinoColor C st)) = diameter (arduinoAttributes st)
   \<and> (effectiveShade st = 50 \<longrightarrow>
        legacyMix (legacyStep1 C st) (effectiveShade st) = mixRgb (legacyStep1 C st) RGB_WHITE 0
        \<and> rgb_r (legacyMix (legacyStep1 C st) (effectiveShade st)) = rgb_r (legacyStep1 C st)
        \<and> rgb_g (legacyMix (legacyStep1 C st) (effectiveShade st)) = rgb_g (legacyStep1 C st)
        \<and> rgb_b (legacyMix (legacyStep1 C st) (effectiveShade st)) = rgb_b (legacyStep1 C st))"
proof -
  have tie: "legacyMix rgb0 50 = mixRgb rgb0 RGB_WHITE 0" for rgb0
    by (simp add: legacyMix_def mixRgb_def)
  have same: "rgb_r (mixRgb rgb0 RGB_WHITE 0) = rgb_r rgb0
              \<and> rgb_g (mixRgb rgb0 RGB_WHITE 0) = rgb_g rgb0
              \<and> rgb_b (mixRgb rgb0 RGB_WHITE 0) = rgb_b rgb0" for rgb0
    by (simp add: mixRgb_def)
  show ?thesis
    using legacy_consistent[of C st]
    by (simp add: legacy_unfolded[of C st] update_fields tie same)
qed

theorem legacy_recompute_steps_witness:
  "effectiveShade DEFAULT_ARDUINO_STATE = 50
   \<and> rgb_r (legacyMix (legacyStep1 stdColor DEFAULT_ARDUINO_STATE) (effectiveShade DEFAULT_ARDUINO_STATE))
       = rgb_r (legacyStep1 stdColor DEFAULT_ARDUINO_STATE)
   \<and> rgb_g (legacyMix (legacyStep1 stdColor DEFAULT_ARDUINO_STATE) (effectiveShade DEFAULT_ARDUINO_STATE))
       = rgb_g (legacyStep1 stdColor DEFAULT_ARDUINO_STATE)
   \<and> rgb_b (legacyMix (legacyStep1 stdColor DEFAULT_ARDUINO_STATE) (effectiveShade DEFAULT_ARDUINO_STATE))
       = rgb_b (legacyStep1 stdColor DEFAULT_ARDUINO_STATE)"
proof -
  have h: "effectiveShade DEFAULT_ARDUINO_STATE = 50"
    by (simp add: effectiveShade_def DEFAULT_ARDUINO_STATE_def)
  show ?thesis
    using h legacy_recompute_steps[of stdColor DEFAULT_ARDUINO_STATE] by blast
qed

text \<open>
  Claim C4 says that setting the shade to \<open>x\<close> stores \<open>((x % 200) + 200) % 200\<close>, a
  value in the half-open range from 0 to 200, and that changing the shade is setting it
  to the stored shade plus the change. The second part holds (\<open>changeShade_routes\<close>).
  The first does not: the block adds 200 to a negative remainder, and for every remainder
  from \<open>- (1 / 2 ^ 46)\<close> up to 0 the rounded sum is 200
  (\<open>shade_rounds_to_200\<close>). So for the shade \<open>- (1 / 2 ^ 55)\<close>, which is what
  \<open>0.3 - 0.1 - 0.2\<close> evaluates to, and for \<open>- (1 / 10 ^ 20)\<close>, as for the
  binary64 number next to it, the block stores exactly 200, which is not below 200.
\<close>

theorem setShade_stores_200:
  "(\<exists>st'. getCustomState (target (setARduinoShadeToNumber C (- (1 / 2 ^ 55)) w)) STATE_KEY = Some st'
          \<and> shade st' = 200 \<and> \<not> shade st' < 200)
   \<and> (\<exists>st'. getCustomState (target (setARduinoShadeToNumber C (- (1 / 10 ^ 20)) w)) STATE_KEY = Some st'
          \<and> shade st' = 200 \<and> \<not> shade st' < 200)"
proof -
  have "(- (1 / 2 ^ 46) :: real) \<le> - (1 / 2 ^ 55)" "(- (1 / 2 ^ 55) :: real) < 0"
       "(- (1 / 2 ^ 46) :: real) \<le> - (1 / 10 ^ 20)" "(- (1 / 10 ^ 20) :: real) < 0"
    by simp_all
  then show ?thesis
    using shade_rounds_to_200[of "- (1 / 2 ^ 55)" C w] shade_rounds_to_200[of "- (1 / 10 ^ 20)" C w]
    by auto
qed

text \<open>
  Claim C5. Setting the colour from an RGB(A) value stores \<open>(h / 360) * 100\<close> as
  colour, \<open>s * 100\<close> as saturation and \<open>v * 100\<close> as brightness, for the HSV
  conversion \<open>(h, s, v)\<close> of the value; stores \<open>100 * (1 - a / 255)\<close> as
  transparency when the value has an alpha \<open>a\<close> and 0 otherwise; stores half the
  brightness as shade; and recomputes \<open>color4f\<close>. The trail flag and the diameter
  stay.
\<close>

theorem setColorToColor_stores:
  "\<exists>st'. getCustomState (target (setARduinoColorToColor C rgb w)) STATE_KEY = Some st'
         \<and> color st' = (hsv_h (rgbToHsv C rgb) / 360) * 100
         \<and> saturation st' = hsv_s (rgbToHsv C rgb) * 100
         \<and> brightness st' = hsv_v (rgbToHsv C rgb) * 100
         \<and> transparency st' = (case rgb_a rgb of Some al \<Rightarrow> 100 * (1 - al / 255) | None \<Rightarrow> 0)
         \<and> shade st' = brightness st' / 2
         \<and> color4f (arduinoAttributes st') = rgbaOf C st'
         \<and> arduinoDown st' = arduinoDown (currentState w)
         \<and> diameter (arduinoAttributes st') = diameter (arduinoAttributes (currentState w))"
  by (simp add: setARduinoColorToColor_def split_def Let_def stored_put update_consistent
        update_fields currentState_def split: option.splits)

text \<open>
  Claim C6. For each of the four colour parameters, changing it by \<open>d\<close> leaves
  the same world as setting it to \<open>d\<close> plus its current value.
\<close>

theorem changeParam_is_setParam:
  "changeARduinoColorParamBy C COLOR d w
     = setARduinoColorParamTo C COLOR (d + color (currentState w)) w
   \<and> changeARduinoColorParamBy C SATURATION d w
     = setARduinoColorParamTo C SATURATION (d + saturation (currentState w)) w
   \<and> changeARduinoColorParamBy C BRIGHTNESS d w
     = setARduinoColorParamTo C BRIGHTNESS (d + brightness (currentState w)) w
   \<and> changeARduinoColorParamBy C TRANSPARENCY d w
     = setARduinoColorParamTo C TRANSPARENCY (d + transparency (currentState w)) w"
  by (simp add: changeARduinoColorParamBy_def setARduinoColorParamTo_def currentState_def
        split_def Let_def toNumber_def setOrChangeColorParam_def
        COLOR_def SATURATION_def BRIGHTNESS_def TRANSPARENCY_def)

text \<open>
  Claim C7. For a parameter name that is none of the four, setting and changing log
  one warning that names it, return, and leave the trail flag, colour, saturation,
  brightness, transparency, shade and diameter as they were; \<open>color4f\<close> is recomputed
  from the unchanged values, so that a state whose \<open>color4f\<close> agreed with them is left
  as it was. Nothing is drawn and no listener is added or removed.
\<close>

theorem unknown_param_is_noop:
  assumes "p \<notin> {COLOR, SATURATION, BRIGHTNESS, TRANSPARENCY}"
  shows "(\<forall>blk \<in> {setARduinoColorParamTo, changeARduinoColorParamBy}.
            (\<exists>st'. getCustomState (target (blk C p v w)) STATE_KEY = Some st'
                \<and> arduinoDown st' = arduinoDown (currentState w)
                \<and> color st' = color (currentState w)
                \<and> saturation st' = saturation (currentState w)
                \<and> brightness st' = brightness (currentState w)
                \<and> transparency st' = transparency (currentState w)
                \<and> shade st' = shade (currentState w)
                \<and> diameter (arduinoAttributes st') = diameter (arduinoAttributes (currentState w))
                \<and> color4f (arduinoAttributes st') = rgbaOf C (currentState w)
                \<and> (color4f (arduinoAttributes (currentState w)) = rgbaOf C (currentState w)
                      \<longrightarrow> st' = currentState w))
            \<and> warnings (blk C p v w)
                = warnings w @ [''Tried to set or change unknown color parameter: '' @ p]
            \<and> calls (blk C p v w) = calls w
            \<and> listeners (target (blk C p v w)) = listeners (target w))
         \<and> runBlock C (SetARduinoColorParamTo p v) w = Returns (setARduinoColorParamTo C p v w)
         \<and> runBlock C (ChangeARduinoColorParamBy p v) w = Returns (changeARduinoColorParamBy C p v w)"
proof -
  have st: "\<exists>st'. Some (updateARduinoColor C (currentState w)) = Some st'
                \<and> arduinoDown st' = arduinoDown (currentState w)
                \<and> color st' = color (currentState w)
                \<and> saturation st' = saturation (currentState w)
                \<and> brightness st' = brightness (currentState w)
                \<and> transparency st' = transparency (currentState w)
                \<and> shade st' = shade (currentState w)
                \<and> diameter (arduinoAttributes st') = diameter (arduinoAttributes (currentState w))
                \<and> color4f (arduinoAttributes st') = rgbaOf C (currentState w)
                \<and> (color4f (arduinoAttributes (currentState w)) = rgbaOf C (currentState w)
                      \<longrightarrow> st' = currentState w)"
    by (simp add: update_fields color4f_update update_idle)
  have s: "getCustomState (target (setARduinoColorParamTo C p v w)) STATE_KEY
             = Some (updateARduinoColor C (currentState w))"
    by (simp add: stored_setParam unknown_setOrChange[OF assms])
  have c: "getCustomState (target (changeARduinoColorParamBy C p v w)) STATE_KEY
             = Some (updateARduinoColor C (currentState w))"
    by (simp add: stored_changeParam unknown_setOrChange[OF assms])
  have ws: "warnings (setARduinoColorParamTo C p v w)
              = warnings w @ [''Tried to set or change unknown color parameter: '' @ p]
            \<and> calls (setARduinoColorParamTo C p v w) = calls w
            \<and> listeners (target (setARduinoColorParamTo C p v w)) = listeners (target w)"
    by (simp add: setARduinoColorParamTo_def split_def Let_def unknown_setOrChange[OF assms]
          put_listeners get_listeners)
  have wc: "warnings (changeARduinoColorParamBy C p v w)
              = warnings w @ [''Tried to set or change unknown color parameter: '' @ p]
            \<and> calls (changeARduinoColorParamBy C p v w) = calls w
            \<and> listeners (target (changeARduinoColorParamBy C p v w)) = listeners (target w)"
    by (simp add: changeARduinoColorParamBy_def split_def Let_def unknown_setOrChange[OF assms]
          put_listeners get_listeners)
  show ?thesis
    using st ws wc by (simp only: ball_simps s c runBlock.simps simp_thms)
qed

theorem unknown_param_is_noop_witness:
  "''hue'' \<notin> {COLOR, SATURATION, BRIGHTNESS, TRANSPARENCY}
   \<and> warnings (setARduinoColorParamTo stdColor ''hue'' 7 (constructed None newTarget))
       = [''Tried to set or change unknown color parameter: hue'']
   \<and> warnings (changeARduinoColorParamBy stdColor ''hue'' 7 (constructed None newTarget))
       = [''Tried to set or change unknown color parameter: hue'']"
proof -
  have h: "''hue'' \<notin> {COLOR, SATURATION, BRIGHTNESS, TRANSPARENCY}"
    by (simp add: COLOR_def SATURATION_def BRIGHTNESS_def TRANSPARENCY_def)
  have w0: "warnings (constructed None newTarget) = []" by (simp add: constructed_def)
  show ?thesis
    using h unknown_param_is_noop[OF h, of stdColor 7 "constructed None newTarget"]
    by (simp add: w0)
qed

text \<open>
  Claim C8. Setting the size to \<open>x\<close> stores the diameter \<open>min (max x 1) 1200\<close>,
  and changing it by \<open>d\<close> stores \<open>min (max (current + d) 1) 1200\<close>; both lie
  between 1 and 1200. The values are what \<open>clamp\<close>, as the spec describes it, yields
  for the bounds of \<open>ARDUINO_SIZE_RANGE\<close>.
\<close>

theorem size_saturating_clamp:
  "(\<exists>st'. getCustomState (target (setARduinoSizeTo x w)) STATE_KEY = Some st'
          \<and> diameter (arduinoAttributes st') = min (max x 1) 1200
          \<and> 1 \<le> diameter (arduinoAttributes st')
          \<and> diameter (arduinoAttributes st') \<le> 1200)
   \<and> (\<exists>st'. getCustomState (target (changeARduinoSizeBy d w)) STATE_KEY = Some st'
          \<and> diameter (arduinoAttributes st')
              = min (max (diameter (arduinoAttributes (currentState w)) + d) 1) 1200
          \<and> 1 \<le> diameter (arduinoAttributes st')
          \<and> diameter (arduinoAttributes st') \<le> 1200)"
  by (simp add: stored_setSize stored_changeSize clampARduinoSize_def clamp_def
        ARDUINO_SIZE_RANGE_min_def ARDUINO_SIZE_RANGE_max_def)

text \<open>
  Claim C9. Putting the trail down on a target whose trail is down already leaves it
  down and leaves the listeners as they were, so that putting it down twice registers
  the listener of the first call only; and lifting the trail twice leaves the same world
  as lifting it once, with the trail up.
\<close>

theorem trail_blocks_idempotent:
  "(arduinoDown (currentState w) \<longrightarrow>
      (\<exists>st'. getCustomState (target (world (arduinoDownBlock w))) STATE_KEY = Some st'
           \<and> arduinoDown st')
      \<and> listeners (target (world (arduinoDownBlock w))) = listeners (target w))
   \<and> (\<exists>st'. getCustomState (target (world (arduinoDownBlock (world (arduinoDownBlock w)))))
               STATE_KEY = Some st' \<and> arduinoDown st')
   \<and> listeners (target (world (arduinoDownBlock (world (arduinoDownBlock w)))))
       = listeners (target (world (arduinoDownBlock w)))
   \<and> arduinoUpBlock (arduinoUpBlock w) = arduinoUpBlock w
   \<and> \<not> arduinoDown (currentState (arduinoUpBlock w))"
proof -
  have down: "arduinoDown (currentState (world (arduinoDownBlock w)))"
    using stored_arduinoDown[of w]
    by (simp add: currentState_def getARduinoState_def)
  have keep: "arduinoDown (currentState v) \<Longrightarrow>
                listeners (target (world (arduinoDownBlock v))) = listeners (target v)" for v
    by (simp add: target_arduinoDown put_listeners get_listeners)
  have up: "\<not> arduinoDown (currentState (arduinoUpBlock w))"
    using stored_arduinoUp[of w]
    by (simp add: currentState_def getARduinoState_def)
  show ?thesis
    using keep[OF down] keep[of w] up
    by (simp add: stored_arduinoDown arduinoUp_idem)
qed

theorem trail_blocks_idempotent_witness:
  "arduinoDown (currentState (world (arduinoDownBlock (constructed None newTarget))))
   \<and> listeners (target (world (arduinoDownBlock (constructed None newTarget))))
       = [(EVENT_TARGET_MOVED, onTargetMoved)]
   \<and> listeners (target (world (arduinoDownBlock (world (arduinoDownBlock (constructed None newTarget))))))
       = [(EVENT_TARGET_MOVED, onTargetMoved)]"
proof -
  have h: "arduinoDown (currentState (world (arduinoDownBlock (constructed None newTarget))))"
    by code_simp
  have l: "listeners (target (world (arduinoDownBlock (constructed None newTarget))))
             = [(EVENT_TARGET_MOVED, onTargetMoved)]"
    by code_simp
  show ?thesis
    using h l trail_blocks_idempotent[of "world (arduinoDownBlock (constructed None newTarget))"]
    by simp
qed

text \<open>
  Claim C10. Setting and changing the size change the diameter and nothing else of the
  state: the trail flag, colour, saturation, brightness, transparency, shade and
  \<open>color4f\<close> are those the block found, whatever \<open>color4f\<close> was; nothing is
  logged or drawn, and the listeners stay.
\<close>

theorem size_blocks_frame:
  "(\<exists>st'. getCustomState (target (setARduinoSizeTo x w)) STATE_KEY = Some st'
          \<and> st' = (currentState w)\<lparr>arduinoAttributes :=
                     (arduinoAttributes (currentState w))
                       \<lparr>diameter := diameter (arduinoAttributes st')\<rparr>\<rparr>
          \<and> arduinoDown st' = arduinoDown (currentState w)
          \<and> color st' = color (currentState w)
          \<and> saturation st' = saturation (currentState w)
          \<and> brightness st' = brightness (currentState w)
          \<and> transparency st' = transparency (currentState w)
          \<and> shade st' = shade (currentState w)
          \<and> color4f (arduinoAttributes st') = color4f (arduinoAttributes (currentState w)))
   \<and> (\<exists>st'. getCustomState (target (changeARduinoSizeBy d w)) STATE_KEY = Some st'
          \<and> st' = (currentState w)\<lparr>arduinoAttributes :=
                     (arduinoAttributes (currentState w))
                       \<lparr>diameter := diameter (arduinoAttributes st')\<rparr>\<rparr>
          \<and> arduinoDown st' = arduinoDown (currentState w)
          \<and> color st' = color (currentState w)
          \<and> saturation st' = saturation (currentState w)
          \<and> brightness st' = brightness (currentState w)
          \<and> transparency st' = transparency (currentState w)
          \<and> shade st' = shade (currentState w)
          \<and> color4f (arduinoAttributes st') = color4f (arduinoAttributes (currentState w)))
   \<and> warnings (setARduinoSizeTo x w) = warnings w
   \<and> warnings (changeARduinoSizeBy d w) = warnings w
   \<and> calls (setARduinoSizeTo x w) = calls w
   \<and> calls (changeARduinoSizeBy d w) = calls w
   \<and> listeners (target (setARduinoSizeTo x w)) = listeners (target w)
   \<and> listeners (target (changeARduinoSizeBy d w)) = listeners (target w)"
proof -
  have "warnings (setARduinoSizeTo x w) = warnings w
        \<and> warnings (changeARduinoSizeBy d w) = warnings w
        \<and> calls (setARduinoSizeTo x w) = calls w
        \<and> calls (changeARduinoSizeBy d w) = calls w
        \<and> listeners (target (setARduinoSizeTo x w)) = listeners (target w)
        \<and> listeners (target (changeARduinoSizeBy d w)) = listeners (target w)"
    by (simp add: setARduinoSizeTo_def changeARduinoSizeBy_def split_def Let_def
          put_listeners get_listeners)
  then show ?thesis
    by (simp add: stored_setSize stored_changeSize)
qed

end
